theory Spec2Isabelle
  imports Main "HOL-Library.Word"
begin

section \<open>Values and errors\<close>

text \<open>
  The exceptions the module can raise. \<open>InvalidArgument\<close> carries the message of the
  \<^verbatim>\<open>raise\<close> statement; \<open>KeyError\<close> carries the missing key; \<open>TypeError\<close> is what
  Python raises when a value is compared or subscripted at a type that does not support it.
  \<open>IllTyped\<close> is not a Python exception: it marks a wire value whose JSON type is not the
  documented one for its key. Python would store such a value as it is; the typed record
  below cannot hold it, so such inputs are outside this development.
\<close>

datatype error = InvalidArgument string | KeyError string | TypeError | IllTyped

text \<open>The emoji objects of the \<^verbatim>\<open>discord\<close> library: \<^verbatim>\<open>discord.Emoji\<close> and
  \<^verbatim>\<open>discord.PartialEmoji(name, animated=False, id=None)\<close>.\<close>

record Emoji =
  em_name :: string
  em_animated :: bool
  em_id :: string

record PartialEmoji =
  pe_name :: string
  pe_animated :: bool
  pe_id :: "string option"

text \<open>
  The \<^verbatim>\<open>emoji\<close> parameter is inspected with \<^verbatim>\<open>isinstance\<close>, so it is a Python value of
  any type.
\<close>

datatype pyval =
    PyNone
  | PyBool bool
  | PyInt int
  | PyStr string
  | PyEmoji Emoji
  | PyPartialEmoji PartialEmoji

text \<open>Python truthiness (\<^verbatim>\<open>not x\<close>, \<^verbatim>\<open>if x\<close>, \<^verbatim>\<open>x or y\<close>). The emoji classes define neither
  \<^verbatim>\<open>__bool__\<close> nor \<^verbatim>\<open>__len__\<close>, so their instances are true.\<close>

fun truthy :: "pyval \<Rightarrow> bool" where
  "truthy PyNone = False"
| "truthy (PyBool b) = b"
| "truthy (PyInt n) = (n \<noteq> 0)"
| "truthy (PyStr s) = (s \<noteq> [])"
| "truthy (PyEmoji e) = True"
| "truthy (PyPartialEmoji p) = True"

text \<open>Truthiness of an \<^verbatim>\<open>Optional[str]\<close>: \<^verbatim>\<open>None\<close> and \<^verbatim>\<open>""\<close> are false.\<close>

fun truthy_str :: "string option \<Rightarrow> bool" where
  "truthy_str None = False"
| "truthy_str (Some s) = (s \<noteq> [])"

text \<open>Truthiness of the stored emoji: a \<^verbatim>\<open>PartialEmoji\<close> or \<^verbatim>\<open>None\<close>.\<close>

fun truthy_emoji :: "PartialEmoji option \<Rightarrow> bool" where
  "truthy_emoji None = False"
| "truthy_emoji (Some p) = True"

text \<open>JSON values of the wire format; a \<^verbatim>\<open>dict\<close> is an association list in insertion
  order, read with \<open>map_of\<close>.\<close>

datatype json =
    JNull
  | JBool bool
  | JInt int
  | JStr string
  | JObj "(string \<times> json) list"

fun truthy_json :: "json \<Rightarrow> bool" where
  "truthy_json JNull = False"
| "truthy_json (JBool b) = b"
| "truthy_json (JInt n) = (n \<noteq> 0)"
| "truthy_json (JStr s) = (s \<noteq> [])"
| "truthy_json (JObj kvs) = (kvs \<noteq> [])"

text \<open>\<^verbatim>\<open>d.get(k)\<close> and \<^verbatim>\<open>d.get(k, default)\<close>.\<close>

definition dict_get :: "(string \<times> json) list \<Rightarrow> string \<Rightarrow> json \<Rightarrow> json" where
  "dict_get d k dflt = (case map_of d k of None \<Rightarrow> dflt | Some v \<Rightarrow> v)"

section \<open>\<^verbatim>\<open>str(uuid1())\<close>\<close>

text \<open>
  \<^verbatim>\<open>uuid1()\<close> returns a 128-bit UUID; the word \<open>u\<close> passed to the constructor below is the
  value of that call. \<^verbatim>\<open>str\<close> of a UUID is \<^verbatim>\<open>'%032x' % int\<close> cut into groups of
  8, 4, 4, 4 and 12 digits joined by hyphens.
\<close>

definition hex_digit :: "nat \<Rightarrow> char" where
  "hex_digit d = ''0123456789abcdef'' ! (d mod 16)"

fun hex_pad :: "nat \<Rightarrow> nat \<Rightarrow> string" where
  "hex_pad 0 n = []"
| "hex_pad (Suc w) n = hex_pad w (n div 16) @ [hex_digit n]"

definition str_uuid :: "128 word \<Rightarrow> string" where
  "str_uuid u =
     (let h = hex_pad 32 (unat u)
      in take 8 h @ ''-'' @ take 4 (drop 8 h) @ ''-'' @ take 4 (drop 12 h) @ ''-''
         @ take 4 (drop 16 h) @ ''-'' @ drop 20 h)"

section \<open>\<^verbatim>\<open>ButtonStyle\<close>\<close>

definition blue :: int where "blue = 1"
definition gray :: int where "gray = 2"
definition grey :: int where "grey = 2"
definition green :: int where "green = 3"
definition red :: int where "red = 4"
definition URL :: int where "URL = 5"

text \<open>
  \<^verbatim>\<open>random.randint(a, b)\<close> returns an integer \<open>N\<close> with \<open>a \<le> N \<le> b\<close>. The draw of the
  underlying generator is the parameter \<open>d\<close>; every \<open>N\<close> in the range is the result of
  some draw.
\<close>

definition randint :: "int \<Rightarrow> int \<Rightarrow> nat \<Rightarrow> int" where
  "randint a b d = a + int (d mod nat (b - a + 1))"

definition randomColor :: "nat \<Rightarrow> int" where
  "randomColor d = randint 1 red d"

definition ButtonStyle_to_dict :: "(string \<times> int) list" where
  "ButtonStyle_to_dict =
     [(''blue'', blue), (''gray'', gray), (''green'', green), (''red'', red), (''URL'', URL)]"

section \<open>\<^verbatim>\<open>Button\<close>\<close>

text \<open>The slots \<^verbatim>\<open>_style\<close>, \<^verbatim>\<open>_label\<close>, \<^verbatim>\<open>_id\<close>, \<^verbatim>\<open>_url\<close>, \<^verbatim>\<open>_disabled\<close>, \<^verbatim>\<open>_emoji\<close>,
  at their documented types.\<close>

record Button =
  b_style :: int
  b_label :: "string option"
  b_id :: "string option"
  b_url :: "string option"
  b_disabled :: bool
  b_emoji :: "PartialEmoji option"

text \<open>The normalisation of the \<^verbatim>\<open>emoji\<close> argument in \<^verbatim>\<open>__init__\<close> (lines 96-103).\<close>

fun init_emoji :: "pyval \<Rightarrow> PartialEmoji option" where
  "init_emoji (PyEmoji e) =
     Some \<lparr>pe_name = em_name e, pe_animated = em_animated e, pe_id = Some (em_id e)\<rparr>"
| "init_emoji (PyPartialEmoji p) = Some p"
| "init_emoji (PyStr s) = Some \<lparr>pe_name = s, pe_animated = False, pe_id = None\<rparr>"
| "init_emoji _ = None"

text \<open>\<^verbatim>\<open>Button.__init__(label, style, id, url, disabled, emoji)\<close>; \<open>u\<close> is the UUID that
  \<^verbatim>\<open>uuid1()\<close> returns when it is called.\<close>

definition Button_init ::
  "128 word \<Rightarrow> string option \<Rightarrow> int \<Rightarrow> string option \<Rightarrow> string option \<Rightarrow> bool \<Rightarrow> pyval
     \<Rightarrow> error + Button" where
  "Button_init u label style ident url disabled emoji =
     (if style = URL \<and> \<not> truthy_str url then
        Inl (InvalidArgument ''You must provide a URL when the style is set to URL.'')
      else if style = URL \<and> truthy_str ident then
        Inl (InvalidArgument ''Both ID and URL are set.'')
      else if \<not> (1 \<le> style \<and> style \<le> URL) then
        Inl (InvalidArgument ''Style must be between 1, 5.'')
      else if \<not> truthy_str label \<and> \<not> truthy emoji then
        Inl (InvalidArgument ''Label or emoji must be given.'')
      else
        Inr \<lparr>b_style = style,
             b_label = label,
             b_id = (if \<not> style = URL
                     then (if truthy_str ident then ident else Some (str_uuid u))
                     else None),
             b_url = url,
             b_disabled = disabled,
             b_emoji = init_emoji emoji\<rparr>)"

subsection \<open>Property setters\<close>

definition set_style :: "Button \<Rightarrow> int \<Rightarrow> error + Button" where
  "set_style b v =
     (if v = URL \<and> truthy_str (b_id b) then
        Inl (InvalidArgument ''Both ID and URL are set.'')
      else if \<not> (1 \<le> v \<and> v \<le> URL) then
        Inl (InvalidArgument ''Style must be between 1, 5.'')
      else Inr (b\<lparr>b_style := v\<rparr>))"

definition set_label :: "Button \<Rightarrow> string option \<Rightarrow> error + Button" where
  "set_label b v =
     (if \<not> truthy_str v \<and> \<not> truthy_emoji (b_emoji b) then
        Inl (InvalidArgument ''Label should not be empty.'')
      else Inr (b\<lparr>b_label := v\<rparr>))"

definition set_url :: "Button \<Rightarrow> string option \<Rightarrow> error + Button" where
  "set_url b v =
     (if truthy_str v \<and> b_style b \<noteq> URL then
        Inl (InvalidArgument ''Button style is not URL. You shouldn't provide URL.'')
      else Inr (b\<lparr>b_url := v\<rparr>))"

definition set_id :: "Button \<Rightarrow> string option \<Rightarrow> error + Button" where
  "set_id b v =
     (if b_style b = URL then
        Inl (InvalidArgument ''Button style is set to URL. You shouldn't provide ID.'')
      else Inr (b\<lparr>b_id := v\<rparr>))"

definition set_disabled :: "Button \<Rightarrow> bool \<Rightarrow> error + Button" where
  "set_disabled b v = Inr (b\<lparr>b_disabled := v\<rparr>)"

fun set_emoji :: "Button \<Rightarrow> pyval \<Rightarrow> error + Button" where
  "set_emoji b (PyPartialEmoji p) = Inr (b\<lparr>b_emoji := Some p\<rparr>)"
| "set_emoji b (PyStr s) =
     Inr (b\<lparr>b_emoji := Some \<lparr>pe_name = s, pe_animated = False, pe_id = None\<rparr>\<rparr>)"
| "set_emoji b _ = Inr b"

subsection \<open>Serialization\<close>

fun json_of_str :: "string option \<Rightarrow> json" where
  "json_of_str None = JNull"
| "json_of_str (Some s) = JStr s"

text \<open>
  Modelled from the spec: \<^verbatim>\<open>PartialEmoji.to_dict\<close> belongs to the \<^verbatim>\<open>discord\<close> library and
  is not among the sources. The wire shape of sections 4.4 and 6 is
  \<^verbatim>\<open>{name, animated?, id?}\<close>: the name always, \<^verbatim>\<open>animated\<close> only when it is true, \<^verbatim>\<open>id\<close>
  only when the emoji has one.
\<close>

definition PartialEmoji_to_dict :: "PartialEmoji \<Rightarrow> (string \<times> json) list" where
  "PartialEmoji_to_dict p =
     [(''name'', JStr (pe_name p))]
     @ (case pe_id p of None \<Rightarrow> [] | Some i \<Rightarrow> [(''id'', JStr i)])
     @ (if pe_animated p then [(''animated'', JBool True)] else [])"

definition Button_to_dict :: "Button \<Rightarrow> (string \<times> json) list" where
  "Button_to_dict b =
     (let data =
        [(''type'', JInt 2),
         (''style'', JInt (b_style b)),
         (''label'', json_of_str (b_label b)),
         (''custom_id'', json_of_str (b_id b)),
         (''url'', if b_style b = URL then json_of_str (b_url b) else JNull),
         (''disabled'', JBool (b_disabled b))]
      in case b_emoji b of
           None \<Rightarrow> data
         | Some p \<Rightarrow> data @ [(''emoji'', JObj (PartialEmoji_to_dict p))])"

text \<open>
  Reading a wire value at the type of the argument it becomes. A \<^verbatim>\<open>style\<close> that is not a
  number makes \<^verbatim>\<open>1 <= style\<close> raise \<^verbatim>\<open>TypeError\<close> (line 85; the two checks before it
  compare with \<^verbatim>\<open>==\<close> and do not fire); a Python \<^verbatim>\<open>bool\<close> is the integer 1 or 0.
\<close>

fun as_style :: "json \<Rightarrow> error + int" where
  "as_style (JInt n) = Inr n"
| "as_style (JBool b) = Inr (if b then 1 else 0)"
| "as_style _ = Inl TypeError"

fun as_str_opt :: "json \<Rightarrow> error + string option" where
  "as_str_opt JNull = Inr None"
| "as_str_opt (JStr s) = Inr (Some s)"
| "as_str_opt _ = Inl IllTyped"

fun as_str :: "json \<Rightarrow> error + string" where
  "as_str (JStr s) = Inr s"
| "as_str _ = Inl IllTyped"

fun as_bool :: "json \<Rightarrow> error + bool" where
  "as_bool (JBool b) = Inr b"
| "as_bool _ = Inl IllTyped"

text \<open>
  The \<^verbatim>\<open>emoji\<close> argument of \<^verbatim>\<open>from_json\<close> (lines 223-227):
  \<^verbatim>\<open>PartialEmoji(name=emoji["name"], animated=emoji.get("animated", False), id=emoji.get("id")) if emoji else None\<close>.
  Subscripting a true value that is not a \<^verbatim>\<open>dict\<close> with a string raises \<^verbatim>\<open>TypeError\<close>.
\<close>

definition from_json_emoji :: "json \<Rightarrow> error + pyval" where
  "from_json_emoji emoji =
     (if truthy_json emoji then
        (case emoji of
           JObj kvs \<Rightarrow>
             (case map_of kvs ''name'' of
                None \<Rightarrow> Inl (KeyError ''name'')
              | Some n \<Rightarrow>
                  (case as_str n of Inl e \<Rightarrow> Inl e | Inr nm \<Rightarrow>
                  (case as_bool (dict_get kvs ''animated'' (JBool False)) of Inl e \<Rightarrow> Inl e | Inr an \<Rightarrow>
                  (case as_str_opt (dict_get kvs ''id'' JNull) of Inl e \<Rightarrow> Inl e | Inr i \<Rightarrow>
                     Inr (PyPartialEmoji \<lparr>pe_name = nm, pe_animated = an, pe_id = i\<rparr>)))))
         | _ \<Rightarrow> Inl TypeError)
      else Inr PyNone)"

text \<open>
  \<^verbatim>\<open>Button.from_json(data)\<close>. The arguments are evaluated in the order of the call:
  \<^verbatim>\<open>data["style"]\<close> first (a missing key raises \<^verbatim>\<open>KeyError\<close>), the \<^verbatim>\<open>emoji\<close> expression
  last, and then \<^verbatim>\<open>__init__\<close> runs.
\<close>

definition from_json :: "128 word \<Rightarrow> (string \<times> json) list \<Rightarrow> error + Button" where
  "from_json u data =
     (let emoji = dict_get data ''emoji'' JNull
      in case map_of data ''style'' of
           None \<Rightarrow> Inl (KeyError ''style'')
         | Some style \<Rightarrow>
             (case from_json_emoji emoji of Inl e \<Rightarrow> Inl e | Inr em \<Rightarrow>
             (case as_style style of Inl e \<Rightarrow> Inl e | Inr st \<Rightarrow>
             (case as_str_opt (dict_get data ''label'' JNull) of Inl e \<Rightarrow> Inl e | Inr label \<Rightarrow>
             (case as_str_opt (dict_get data ''custom_id'' JNull) of Inl e \<Rightarrow> Inl e | Inr ident \<Rightarrow>
             (case as_str_opt (dict_get data ''url'' JNull) of Inl e \<Rightarrow> Inl e | Inr url \<Rightarrow>
             (case as_bool (dict_get data ''disabled'' (JBool False)) of Inl e \<Rightarrow> Inl e | Inr disabled \<Rightarrow>
                Button_init u label st ident url disabled em)))))))"

subsection \<open>Sequences of operations\<close>

datatype op =
    SetStyle int
  | SetLabel "string option"
  | SetUrl "string option"
  | SetId "string option"
  | SetDisabled bool
  | SetEmoji pyval

fun apply_op :: "Button \<Rightarrow> op \<Rightarrow> error + Button" where
  "apply_op b (SetStyle v) = set_style b v"
| "apply_op b (SetLabel v) = set_label b v"
| "apply_op b (SetUrl v) = set_url b v"
| "apply_op b (SetId v) = set_id b v"
| "apply_op b (SetDisabled v) = set_disabled b v"
| "apply_op b (SetEmoji v) = set_emoji b v"

text \<open>An exception ends the sequence, as it would end the caller's block.\<close>

fun apply_ops :: "Button \<Rightarrow> op list \<Rightarrow> error + Button" where
  "apply_ops b [] = Inr b"
| "apply_ops b (x # xs) = (case apply_op b x of Inl e \<Rightarrow> Inl e | Inr b' \<Rightarrow> apply_ops b' xs)"

subsection \<open>Outcomes and the invariants of the specification\<close>

fun raises_InvalidArgument :: "error + 'a \<Rightarrow> bool" where
  "raises_InvalidArgument (Inl (InvalidArgument m)) = True"
| "raises_InvalidArgument _ = False"

fun succeeds :: "error + 'a \<Rightarrow> bool" where
  "succeeds (Inr x) = True"
| "succeeds (Inl e) = False"

text \<open>The four invariants, in the words of section 3 of the specification; absent is
  \<^verbatim>\<open>None\<close>, present is anything else.\<close>

definition inv_link :: "Button \<Rightarrow> bool" where
  "inv_link b = (b_style b = URL \<longrightarrow> truthy_str (b_url b) \<and> b_id b = None)"

definition inv_nonlink :: "Button \<Rightarrow> bool" where
  "inv_nonlink b = (b_style b \<noteq> URL \<longrightarrow> b_id b \<noteq> None \<and> b_url b = None)"

definition inv_label_or_emoji :: "Button \<Rightarrow> bool" where
  "inv_label_or_emoji b = (truthy_str (b_label b) \<or> b_emoji b \<noteq> None)"

definition inv_style :: "Button \<Rightarrow> bool" where
  "inv_style b = (1 \<le> b_style b \<and> b_style b \<le> 5)"

definition invariants :: "Button \<Rightarrow> bool" where
  "invariants b = (inv_link b \<and> inv_nonlink b \<and> inv_label_or_emoji b \<and> inv_style b)"

text \<open>\<^verbatim>\<open>isinstance(v, PartialEmoji)\<close> and \<^verbatim>\<open>isinstance(v, str)\<close>.\<close>

fun isinstance_PartialEmoji :: "pyval \<Rightarrow> bool" where
  "isinstance_PartialEmoji (PyPartialEmoji p) = True"
| "isinstance_PartialEmoji _ = False"

fun isinstance_str :: "pyval \<Rightarrow> bool" where
  "isinstance_str (PyStr s) = True"
| "isinstance_str _ = False"

text \<open>
  The failure conditions of construction and of the style setter in the words of
  sections 4.2 and 4.3 of the specification: an identifier is supplied, or currently set,
  when it is not \<^verbatim>\<open>None\<close>.
\<close>

definition spec_construct_fails ::
  "string option \<Rightarrow> int \<Rightarrow> string option \<Rightarrow> string option \<Rightarrow> pyval \<Rightarrow> bool" where
  "spec_construct_fails label style ident url emoji =
     ((style = URL \<and> \<not> truthy_str url)
      \<or> (style = URL \<and> ident \<noteq> None)
      \<or> \<not> (1 \<le> style \<and> style \<le> 5)
      \<or> (\<not> truthy_str label \<and> \<not> truthy emoji))"

definition spec_set_style_fails :: "Button \<Rightarrow> int \<Rightarrow> bool" where
  "spec_set_style_fails b v = ((v = URL \<and> b_id b \<noteq> None) \<or> \<not> (1 \<le> v \<and> v \<le> 5))"

text \<open>What construction establishes and every setter keeps.\<close>

definition kept_invariants :: "Button \<Rightarrow> bool" where
  "kept_invariants b = (inv_style b \<and> (b_style b = URL \<longrightarrow> \<not> truthy_str (b_id b)))"

section \<open>Theorems\<close>


subsection \<open>Auxiliary facts\<close>


lemma dict_get_absent: "map_of d k = None \<Longrightarrow> dict_get d k dflt = dflt"
  by (simp add: dict_get_def)

lemma dict_get_append_other:
  "k \<noteq> k' \<Longrightarrow> dict_get (d @ [(k', v)]) k dflt = dict_get d k dflt"
  by (simp add: dict_get_def map_add_def split: option.splits)

lemma dict_get_append_same:
  "map_of d k = None \<Longrightarrow> dict_get (d @ [(k, v)]) k dflt = v"
  by (simp add: dict_get_def map_add_def)

lemma map_of_append_other:
  "k \<noteq> k' \<Longrightarrow> map_of (d @ [(k', v)]) k = map_of d k"
  by (simp add: map_add_def split: option.splits)



lemma init_kept:
  assumes "Button_init u label style ident url disabled emoji = Inr b"
  shows "kept_invariants b"
    and "truthy emoji \<longrightarrow> init_emoji emoji \<noteq> None \<Longrightarrow> inv_label_or_emoji b"
proof -
  from assms show "kept_invariants b"
    by (auto simp: Button_init_def kept_invariants_def inv_style_def URL_def split: if_splits)
  assume "truthy emoji \<longrightarrow> init_emoji emoji \<noteq> None"
  with assms show "inv_label_or_emoji b"
    by (auto simp: Button_init_def inv_label_or_emoji_def split: if_splits)
qed

lemma apply_op_kept:
  assumes "apply_op b x = Inr b'"
  shows "kept_invariants b \<Longrightarrow> kept_invariants b'"
    and "inv_label_or_emoji b \<Longrightarrow> inv_label_or_emoji b'"
proof -
  assume "kept_invariants b"
  with assms show "kept_invariants b'"
    by (cases x; cases "b_id b")
       (auto simp: kept_invariants_def inv_style_def set_style_def set_label_def set_url_def
          set_id_def set_disabled_def URL_def
          split: if_splits elim!: set_emoji.elims)
next
  assume "inv_label_or_emoji b"
  with assms show "inv_label_or_emoji b'"
    by (cases x; cases "b_emoji b")
       (auto simp: inv_label_or_emoji_def set_style_def set_label_def set_url_def
          set_id_def set_disabled_def
          split: if_splits elim!: set_emoji.elims)
qed

lemma apply_ops_kept:
  "apply_ops b ops = Inr b' \<Longrightarrow> kept_invariants b \<Longrightarrow> kept_invariants b'"
proof (induction ops arbitrary: b)
  case Nil
  then show ?case by simp
next
  case (Cons x xs)
  then show ?case
    by (auto split: sum.splits dest: apply_op_kept(1))
qed

lemma apply_ops_label_or_emoji:
  "apply_ops b ops = Inr b' \<Longrightarrow> inv_label_or_emoji b \<Longrightarrow> inv_label_or_emoji b'"
proof (induction ops arbitrary: b)
  case Nil
  then show ?case by simp
next
  case (Cons x xs)
  then show ?case
    by (auto split: sum.splits dest: apply_op_kept(2))
qed

subsection \<open>Invariants\<close>

text \<open>
  Claim C1, as amended. After a successful construction followed by any sequence of
  successful setter calls, the style is in 1..5; a button of style URL has no identifier
  or the empty one; and, when the \<^verbatim>\<open>emoji\<close> argument of the constructor was false or an
  \<^verbatim>\<open>Emoji\<close>, a \<^verbatim>\<open>PartialEmoji\<close> or a string, the label is non-empty or an emoji is
  present. The clauses on the url, and the presence of an identifier on a button of
  another style, are not kept: each setter checks its own field only.
\<close>

theorem kept_invariants_reachable:
  assumes "Button_init u label style ident url disabled emoji = Inr b0"
    and "apply_ops b0 ops = Inr b"
  shows "inv_style b \<and> (b_style b = URL \<longrightarrow> \<not> truthy_str (b_id b))
         \<and> ((truthy emoji \<longrightarrow> init_emoji emoji \<noteq> None) \<longrightarrow> inv_label_or_emoji b)"
proof -
  from assms have "kept_invariants b"
    by (blast intro: init_kept(1) apply_ops_kept)
  moreover have "inv_label_or_emoji b" if "truthy emoji \<longrightarrow> init_emoji emoji \<noteq> None"
    using assms that by (blast intro: init_kept(2) apply_ops_label_or_emoji)
  ultimately show ?thesis
    by (simp add: kept_invariants_def)
qed

theorem kept_invariants_reachable_witness:
  "Button_init 0 (Some ''Go'') gray None None False (PyStr ''x'')
     = Inr \<lparr>b_style = 2, b_label = Some ''Go'', b_id = Some (str_uuid 0), b_url = None,
            b_disabled = False,
            b_emoji = Some \<lparr>pe_name = ''x'', pe_animated = False, pe_id = None\<rparr>\<rparr>
   \<and> apply_ops \<lparr>b_style = 2, b_label = Some ''Go'', b_id = Some (str_uuid 0), b_url = None,
            b_disabled = False,
            b_emoji = Some \<lparr>pe_name = ''x'', pe_animated = False, pe_id = None\<rparr>\<rparr>
         [SetLabel None, SetId (Some ''''), SetStyle URL, SetDisabled True]
     = Inr \<lparr>b_style = 5, b_label = None, b_id = Some '''', b_url = None,
            b_disabled = True,
            b_emoji = Some \<lparr>pe_name = ''x'', pe_animated = False, pe_id = None\<rparr>\<rparr>
   \<and> init_emoji (PyStr ''x'') \<noteq> None
   \<and> inv_style \<lparr>b_style = 5, b_label = None, b_id = Some '''', b_url = None,
            b_disabled = True,
            b_emoji = Some \<lparr>pe_name = ''x'', pe_animated = False, pe_id = None\<rparr>\<rparr>
   \<and> inv_label_or_emoji \<lparr>b_style = 5, b_label = None, b_id = Some '''', b_url = None,
            b_disabled = True,
            b_emoji = Some \<lparr>pe_name = ''x'', pe_animated = False, pe_id = None\<rparr>\<rparr>"
proof -
  have i: "Button_init 0 (Some ''Go'') gray None None False (PyStr ''x'')
     = Inr \<lparr>b_style = 2, b_label = Some ''Go'', b_id = Some (str_uuid 0), b_url = None,
            b_disabled = False,
            b_emoji = Some \<lparr>pe_name = ''x'', pe_animated = False, pe_id = None\<rparr>\<rparr>"
    by (simp add: Button_init_def gray_def URL_def)
  have a: "apply_ops \<lparr>b_style = 2, b_label = Some ''Go'', b_id = Some (str_uuid 0), b_url = None,
            b_disabled = False,
            b_emoji = Some \<lparr>pe_name = ''x'', pe_animated = False, pe_id = None\<rparr>\<rparr>
         [SetLabel None, SetId (Some ''''), SetStyle URL, SetDisabled True]
     = Inr \<lparr>b_style = 5, b_label = None, b_id = Some '''', b_url = None,
            b_disabled = True,
            b_emoji = Some \<lparr>pe_name = ''x'', pe_animated = False, pe_id = None\<rparr>\<rparr>"
    by (simp add: set_label_def set_id_def set_style_def set_disabled_def URL_def)
  have e: "truthy (PyStr ''x'') \<longrightarrow> init_emoji (PyStr ''x'') \<noteq> None"
    by simp
  have n: "init_emoji (PyStr ''x'') \<noteq> None"
    by simp
  from kept_invariants_reachable [OF i a] e n i a show ?thesis
    by blast
qed

text \<open>
  The four invariants as the specification states them do not survive the style setter: a
  URL button constructed with a url and then given the style gray keeps its url and has no
  identifier.
\<close>

theorem invariants_counterexample:
  "Button_init 0 (Some ''Visit'') URL None (Some ''https://example.com'') False PyNone
     = Inr \<lparr>b_style = 5, b_label = Some ''Visit'', b_id = None,
            b_url = Some ''https://example.com'', b_disabled = False, b_emoji = None\<rparr>
   \<and> apply_ops \<lparr>b_style = 5, b_label = Some ''Visit'', b_id = None,
            b_url = Some ''https://example.com'', b_disabled = False, b_emoji = None\<rparr>
         [SetStyle gray]
     = Inr \<lparr>b_style = 2, b_label = Some ''Visit'', b_id = None,
            b_url = Some ''https://example.com'', b_disabled = False, b_emoji = None\<rparr>
   \<and> \<not> invariants \<lparr>b_style = 2, b_label = Some ''Visit'', b_id = None,
            b_url = Some ''https://example.com'', b_disabled = False, b_emoji = None\<rparr>"
  by (simp add: Button_init_def set_style_def invariants_def inv_nonlink_def URL_def gray_def)

subsection \<open>Round trip\<close>




subsection \<open>Construction\<close>

text \<open>
  Claim C3, as amended. Construction raises \<^verbatim>\<open>InvalidArgument\<close> exactly when the style is
  URL and the url is empty or absent, or the style is URL and a non-empty identifier is
  supplied, or the style is outside 1..5, or both label and emoji are empty or absent; in
  every other case it succeeds and returns a button.
\<close>

theorem construct_fails_iff:
  "raises_InvalidArgument (Button_init u label style ident url disabled emoji)
     = ((style = URL \<and> \<not> truthy_str url)
        \<or> (style = URL \<and> truthy_str ident)
        \<or> style < 1 \<or> 5 < style
        \<or> (\<not> truthy_str label \<and> \<not> truthy emoji))
   \<and> succeeds (Button_init u label style ident url disabled emoji)
     = (\<not> raises_InvalidArgument (Button_init u label style ident url disabled emoji))"
  by (auto simp: Button_init_def URL_def)

theorem construct_fails_iff_witness:
  "raises_InvalidArgument (Button_init 0 None URL None None False PyNone)
   \<and> succeeds (Button_init 0 (Some ''Visit'') URL None (Some ''https://example.com'') False PyNone)"
  using construct_fails_iff [of 0 None URL None None False PyNone]
    construct_fails_iff [of 0 "Some ''Visit''" URL None "Some ''https://example.com''" False PyNone]
  by (simp add: URL_def)

text \<open>
  With the style URL, a url and the empty string supplied as identifier, the condition of
  the specification holds and construction succeeds.
\<close>

theorem construct_counterexample:
  "spec_construct_fails (Some ''a'') URL (Some '''') (Some ''https://x'') PyNone
   \<and> succeeds (Button_init 0 (Some ''a'') URL (Some '''') (Some ''https://x'') False PyNone)"
  by (simp add: spec_construct_fails_def Button_init_def URL_def)

text \<open>
  Claim C6. Constructed with the style gray, a label, no identifier and a url, the button
  keeps the url it was given: its url is not \<^verbatim>\<open>None\<close>. The identifier is the string of
  the UUID drawn.
\<close>

theorem init_nonlink_url_kept:
  "Button_init 0 (Some ''Go'') gray None (Some ''https://example.com'') False PyNone
     = Inr \<lparr>b_style = 2, b_label = Some ''Go'', b_id = Some (str_uuid 0),
            b_url = Some ''https://example.com'', b_disabled = False, b_emoji = None\<rparr>"
  by (simp add: Button_init_def gray_def URL_def)

text \<open>
  Claim C9. A successful construction with a style other than URL stores the supplied
  identifier when it is a non-empty string, and the string of a freshly drawn UUID when it
  is empty or absent.
\<close>

theorem init_id_or_uuid:
  assumes "Button_init u label style ident url disabled emoji = Inr b"
    and "style \<noteq> URL"
  shows "b_id b = (if truthy_str ident then ident else Some (str_uuid u))"
  using assms by (auto simp: Button_init_def split: if_splits)

theorem init_id_or_uuid_witness:
  "Button_init 7 (Some ''Go'') gray (Some '''') None False PyNone
     = Inr \<lparr>b_style = 2, b_label = Some ''Go'', b_id = Some (str_uuid 7), b_url = None,
            b_disabled = False, b_emoji = None\<rparr>
   \<and> gray \<noteq> URL
   \<and> b_id \<lparr>b_style = 2, b_label = Some ''Go'', b_id = Some (str_uuid 7), b_url = None,
            b_disabled = False, b_emoji = None\<rparr> = Some (str_uuid 7)"
proof -
  have h: "Button_init 7 (Some ''Go'') gray (Some '''') None False PyNone
     = Inr \<lparr>b_style = 2, b_label = Some ''Go'', b_id = Some (str_uuid 7), b_url = None,
            b_disabled = False, b_emoji = None\<rparr>"
    by (simp add: Button_init_def gray_def URL_def)
  have g: "gray \<noteq> URL" by (simp add: gray_def URL_def)
  from init_id_or_uuid [OF h g] h g show ?thesis by simp
qed

subsection \<open>Setters\<close>

text \<open>
  Claim C4, as amended. The style setter raises \<^verbatim>\<open>InvalidArgument\<close> exactly when the new
  value is URL while the current identifier is a non-empty string, or the new value is
  outside 1..5; otherwise it returns the button with the style replaced and every other
  field as it was.
\<close>

theorem set_style_effect:
  "raises_InvalidArgument (set_style b v)
     = ((v = URL \<and> truthy_str (b_id b)) \<or> v < 1 \<or> 5 < v)
   \<and> (\<not> raises_InvalidArgument (set_style b v) \<longrightarrow>
        set_style b v = Inr (b\<lparr>b_style := v\<rparr>))"
  by (auto simp: set_style_def URL_def)

theorem set_style_effect_witness:
  "raises_InvalidArgument
     (set_style \<lparr>b_style = 2, b_label = Some ''Go'', b_id = Some ''a'', b_url = None,
                 b_disabled = False, b_emoji = None\<rparr> URL)
   \<and> \<not> raises_InvalidArgument
     (set_style \<lparr>b_style = 2, b_label = Some ''Go'', b_id = Some ''a'', b_url = None,
                 b_disabled = False, b_emoji = None\<rparr> 3)
   \<and> set_style \<lparr>b_style = 2, b_label = Some ''Go'', b_id = Some ''a'', b_url = None,
                 b_disabled = False, b_emoji = None\<rparr> 3
     = Inr \<lparr>b_style = 3, b_label = Some ''Go'', b_id = Some ''a'', b_url = None,
            b_disabled = False, b_emoji = None\<rparr>"
  using set_style_effect [of "\<lparr>b_style = 2, b_label = Some ''Go'', b_id = Some ''a'',
                 b_url = None, b_disabled = False, b_emoji = None\<rparr>" URL]
    set_style_effect [of "\<lparr>b_style = 2, b_label = Some ''Go'', b_id = Some ''a'',
                 b_url = None, b_disabled = False, b_emoji = None\<rparr>" 3]
  by (simp add: URL_def)

text \<open>
  A gray button whose identifier has been set to the empty string has an identifier set,
  and the style setter accepts URL for it.
\<close>

theorem set_style_counterexample:
  "set_id \<lparr>b_style = 2, b_label = Some ''Go'', b_id = Some ''a'', b_url = None,
            b_disabled = False, b_emoji = None\<rparr> (Some '''')
     = Inr \<lparr>b_style = 2, b_label = Some ''Go'', b_id = Some '''', b_url = None,
            b_disabled = False, b_emoji = None\<rparr>
   \<and> spec_set_style_fails \<lparr>b_style = 2, b_label = Some ''Go'', b_id = Some '''', b_url = None,
            b_disabled = False, b_emoji = None\<rparr> URL
   \<and> succeeds (set_style \<lparr>b_style = 2, b_label = Some ''Go'', b_id = Some '''', b_url = None,
            b_disabled = False, b_emoji = None\<rparr> URL)"
  by (simp add: set_id_def spec_set_style_fails_def set_style_def URL_def)

text \<open>
  Claim C5. The emoji setter stores a \<^verbatim>\<open>PartialEmoji\<close> as it is and a string as the
  \<^verbatim>\<open>PartialEmoji\<close> of that name; for an argument of any other type it raises nothing and
  returns the button unchanged.
\<close>

theorem set_emoji_cases:
  "set_emoji b (PyPartialEmoji p) = Inr (b\<lparr>b_emoji := Some p\<rparr>)
   \<and> set_emoji b (PyStr s) =
       Inr (b\<lparr>b_emoji := Some \<lparr>pe_name = s, pe_animated = False, pe_id = None\<rparr>\<rparr>)
   \<and> (\<not> isinstance_PartialEmoji v \<and> \<not> isinstance_str v \<longrightarrow> set_emoji b v = Inr b)"
  by (cases v) simp_all

theorem set_emoji_cases_witness:
  "\<not> isinstance_PartialEmoji (PyInt 42) \<and> \<not> isinstance_str (PyInt 42)
   \<and> set_emoji \<lparr>b_style = 2, b_label = Some ''Go'', b_id = Some ''a'', b_url = None,
                  b_disabled = False,
                  b_emoji = Some \<lparr>pe_name = ''x'', pe_animated = False, pe_id = None\<rparr>\<rparr>
        (PyInt 42)
       = Inr \<lparr>b_style = 2, b_label = Some ''Go'', b_id = Some ''a'', b_url = None,
              b_disabled = False,
              b_emoji = Some \<lparr>pe_name = ''x'', pe_animated = False, pe_id = None\<rparr>\<rparr>"
  using set_emoji_cases [of "\<lparr>b_style = 2, b_label = Some ''Go'', b_id = Some ''a'',
                  b_url = None, b_disabled = False,
                  b_emoji = Some \<lparr>pe_name = ''x'', pe_animated = False, pe_id = None\<rparr>\<rparr>"
                  _ _ "PyInt 42"]
  by simp

subsection \<open>Serialization\<close>

text \<open>
  Claim C7. \<^verbatim>\<open>to_dict\<close> always has the key \<^verbatim>\<open>url\<close>; its value is the stored url when the
  style is URL and \<^verbatim>\<open>None\<close> for every other style, whatever url is stored.
\<close>

theorem to_dict_url:
  "map_of (Button_to_dict b) ''url'' =
     Some (if b_style b = URL then json_of_str (b_url b) else JNull)"
  by (simp add: Button_to_dict_def Let_def split: option.splits)

theorem to_dict_url_witness:
  "map_of (Button_to_dict \<lparr>b_style = 2, b_label = Some ''Go'', b_id = Some ''a'',
             b_url = Some ''https://example.com'', b_disabled = False, b_emoji = None\<rparr>) ''url''
     = Some JNull"
  using to_dict_url [of "\<lparr>b_style = 2, b_label = Some ''Go'', b_id = Some ''a'',
             b_url = Some ''https://example.com'', b_disabled = False, b_emoji = None\<rparr>"]
  by (simp add: URL_def)

text \<open>
  Claim C10. \<^verbatim>\<open>from_json\<close> of a map without the key \<^verbatim>\<open>style\<close> raises \<^verbatim>\<open>KeyError\<close>. Each
  of the keys \<^verbatim>\<open>label\<close>, \<^verbatim>\<open>custom_id\<close>, \<^verbatim>\<open>url\<close>, \<^verbatim>\<open>disabled\<close> and \<^verbatim>\<open>emoji\<close> may be
  missing: the result is then the result for the same map with the key bound to
  \<^verbatim>\<open>None\<close> (\<^verbatim>\<open>False\<close> for \<^verbatim>\<open>disabled\<close>), and a map with \<^verbatim>\<open>style\<close> alone gives the
  constructor call with label, identifier and url \<^verbatim>\<open>None\<close>, \<^verbatim>\<open>disabled\<close> false and no
  emoji.
\<close>

theorem from_json_keys:
  "(map_of data ''style'' = None \<longrightarrow> from_json u data = Inl (KeyError ''style''))
   \<and> (map_of data ''label'' = None \<longrightarrow>
        from_json u data = from_json u (data @ [(''label'', JNull)]))
   \<and> (map_of data ''custom_id'' = None \<longrightarrow>
        from_json u data = from_json u (data @ [(''custom_id'', JNull)]))
   \<and> (map_of data ''url'' = None \<longrightarrow>
        from_json u data = from_json u (data @ [(''url'', JNull)]))
   \<and> (map_of data ''disabled'' = None \<longrightarrow>
        from_json u data = from_json u (data @ [(''disabled'', JBool False)]))
   \<and> (map_of data ''emoji'' = None \<longrightarrow>
        from_json u data = from_json u (data @ [(''emoji'', JNull)]))
   \<and> (map_of data ''style'' = Some (JInt s) \<and> map_of data ''label'' = None
        \<and> map_of data ''custom_id'' = None \<and> map_of data ''url'' = None
        \<and> map_of data ''disabled'' = None \<and> map_of data ''emoji'' = None \<longrightarrow>
        from_json u data = Button_init u None s None None False PyNone)"
proof (intro conjI impI)
  assume "map_of data ''style'' = None"
  then show "from_json u data = Inl (KeyError ''style'')"
    by (simp add: from_json_def)
next
  assume "map_of data ''label'' = None"
  then show "from_json u data = from_json u (data @ [(''label'', JNull)])"
    by (simp add: from_json_def dict_get_absent dict_get_append_same dict_get_append_other
        map_of_append_other del: map_of_append
        cong: option.case_cong sum.case_cong)
next
  assume "map_of data ''custom_id'' = None"
  then show "from_json u data = from_json u (data @ [(''custom_id'', JNull)])"
    by (simp add: from_json_def dict_get_absent dict_get_append_same dict_get_append_other
        map_of_append_other del: map_of_append
        cong: option.case_cong sum.case_cong)
next
  assume "map_of data ''url'' = None"
  then show "from_json u data = from_json u (data @ [(''url'', JNull)])"
    by (simp add: from_json_def dict_get_absent dict_get_append_same dict_get_append_other
        map_of_append_other del: map_of_append
        cong: option.case_cong sum.case_cong)
next
  assume "map_of data ''disabled'' = None"
  then show "from_json u data = from_json u (data @ [(''disabled'', JBool False)])"
    by (simp add: from_json_def dict_get_absent dict_get_append_same dict_get_append_other
        map_of_append_other del: map_of_append
        cong: option.case_cong sum.case_cong)
next
  assume "map_of data ''emoji'' = None"
  then show "from_json u data = from_json u (data @ [(''emoji'', JNull)])"
    by (simp add: from_json_def dict_get_absent dict_get_append_same dict_get_append_other
        map_of_append_other del: map_of_append
        cong: option.case_cong sum.case_cong)
next
  assume "map_of data ''style'' = Some (JInt s) \<and> map_of data ''label'' = None
        \<and> map_of data ''custom_id'' = None \<and> map_of data ''url'' = None
        \<and> map_of data ''disabled'' = None \<and> map_of data ''emoji'' = None"
  then show "from_json u data = Button_init u None s None None False PyNone"
    by (simp add: from_json_def dict_get_absent from_json_emoji_def)
qed

theorem from_json_keys_witness:
  "map_of [(''label'', JStr ''Go'')] ''style'' = None
   \<and> from_json 0 [(''label'', JStr ''Go'')] = Inl (KeyError ''style'')
   \<and> (map_of [(''style'', JInt 2)] ''style'' = Some (JInt 2)
        \<and> map_of [(''style'', JInt 2)] ''label'' = None
        \<and> map_of [(''style'', JInt 2)] ''custom_id'' = None
        \<and> map_of [(''style'', JInt 2)] ''url'' = None
        \<and> map_of [(''style'', JInt 2)] ''disabled'' = None
        \<and> map_of [(''style'', JInt 2)] ''emoji'' = None)
   \<and> from_json 0 [(''style'', JInt 2)] = Button_init 0 None 2 None None False PyNone"
proof -
  have h1: "map_of [(''label'', JStr ''Go'')] ''style'' = None"
    by simp
  have h2: "map_of [(''style'', JInt 2)] ''style'' = Some (JInt 2)
        \<and> map_of [(''style'', JInt 2)] ''label'' = None
        \<and> map_of [(''style'', JInt 2)] ''custom_id'' = None
        \<and> map_of [(''style'', JInt 2)] ''url'' = None
        \<and> map_of [(''style'', JInt 2)] ''disabled'' = None
        \<and> map_of [(''style'', JInt 2)] ''emoji'' = None"
    by simp
  from h1 from_json_keys [of "[(''label'', JStr ''Go'')]" 0 2]
  have c1: "from_json 0 [(''label'', JStr ''Go'')] = Inl (KeyError ''style'')"
    by blast
  from h2 from_json_keys [of "[(''style'', JInt 2)]" 0 2]
  have c2: "from_json 0 [(''style'', JInt 2)] = Button_init 0 None 2 None None False PyNone"
    by blast
  from h1 h2 c1 c2 show ?thesis by blast
qed

subsection \<open>Random style\<close>

text \<open>
  Claim C8. \<^verbatim>\<open>ButtonStyle.randomColor\<close> returns one of 1, 2, 3, 4 and never 5 (the URL
  style), whatever the generator draws.
\<close>

theorem randomColor_range: "randomColor d \<in> {1, 2, 3, 4} \<and> randomColor d \<noteq> URL"
proof -
  have "d mod 4 < 4" by simp
  then have "d mod 4 = 0 \<or> d mod 4 = 1 \<or> d mod 4 = 2 \<or> d mod 4 = 3" by arith
  then show ?thesis
    by (auto simp: randomColor_def randint_def red_def URL_def)
qed

theorem randomColor_range_witness: "randomColor 7 \<in> {1, 2, 3, 4} \<and> randomColor 7 \<noteq> URL"
  using randomColor_range [of 7] by simp

end
